theory Spec2Isabelle
  imports Complex_Main "HOL-Library.Word"
begin

section \<open>Embedding providers of memgpt/embeddings.py\<close>

text \<open>
  The development follows \<^verbatim>\<open>src/memgpt/embeddings.py\<close>. Python exceptions are values of
  \<open>py_error\<close>, identified by their class; a function that can raise returns
  \<open>py_error + 'a\<close> with \<open>Inl\<close> for the exception. Calls into libraries the module imports
  (the URL check, the tokenizer, the text formatter, the HTTP client) are parameters of the
  functions that use them.
\<close>

subsection \<open>Exceptions and JSON values\<close>

datatype py_error = ValueError | TypeError | KeyError | IndexError | TransportError

text \<open>
  What \<^verbatim>\<open>response.json()\<close> returns: a decoded JSON value. An object is the decoded
  dictionary, kept as an association list read with \<open>map_of\<close>; its keys are strings.
\<close>

datatype json =
    JNull
  | JBool bool
  | JNumber real
  | JString string
  | JArray "json list"
  | JObject "(string \<times> json) list"

text \<open>
  Python's subscript \<^verbatim>\<open>x[0]\<close> on a decoded value: a list or a string is indexed and raises
  IndexError when empty; a dictionary is searched for the key \<^verbatim>\<open>0\<close>, which no decoded
  object has (KeyError); numbers, booleans and \<^verbatim>\<open>None\<close> are not subscriptable (TypeError).
\<close>

fun getitem_zero :: "json \<Rightarrow> py_error + json" where
  "getitem_zero (JArray []) = Inl IndexError"
| "getitem_zero (JArray (x # xs)) = Inr x"
| "getitem_zero (JString []) = Inl IndexError"
| "getitem_zero (JString (c # cs)) = Inr (JString [c])"
| "getitem_zero (JObject kvs) = Inl KeyError"
| "getitem_zero JNull = Inl TypeError"
| "getitem_zero (JBool b) = Inl TypeError"
| "getitem_zero (JNumber r) = Inl TypeError"

text \<open>
  Python's subscript \<^verbatim>\<open>x["key"]\<close>: a dictionary lookup raising KeyError on a miss; a
  list or a string indexed by a string raises TypeError, as does any other value.
\<close>

fun getitem_key :: "json \<Rightarrow> string \<Rightarrow> py_error + json" where
  "getitem_key (JObject kvs) k = (case map_of kvs k of None \<Rightarrow> Inl KeyError | Some v \<Rightarrow> Inr v)"
| "getitem_key (JArray xs) k = Inl TypeError"
| "getitem_key (JString s) k = Inl TypeError"
| "getitem_key JNull k = Inl TypeError"
| "getitem_key (JBool b) k = Inl TypeError"
| "getitem_key (JNumber r) k = Inl TypeError"

subsection \<open>Parsing the response (lines 97 to 112, and 131 to 146)\<close>

text \<open>\<^verbatim>\<open>response_json["data"][0]["embedding"]\<close>, evaluated left to right.\<close>

definition data_0_embedding :: "json \<Rightarrow> py_error + json" where
  "data_0_embedding response_json =
     (case getitem_key response_json ''data'' of
        Inl e \<Rightarrow> Inl e
      | Inr d \<Rightarrow>
          (case getitem_zero d of
             Inl e \<Rightarrow> Inl e
           | Inr x \<Rightarrow> getitem_key x ''embedding''))"

text \<open>
  The \<^verbatim>\<open>isinstance\<close> chain of \<^verbatim>\<open>_call_api\<close>. The \<^verbatim>\<open>except\<close> clause catches
  KeyError and IndexError and raises TypeError; any other exception of the subscript
  chain propagates as it is.
\<close>

definition parse_response :: "json \<Rightarrow> py_error + json" where
  "parse_response response_json =
     (case response_json of
        JArray xs \<Rightarrow> Inr response_json
      | JObject kvs \<Rightarrow>
          (case data_0_embedding response_json of
             Inr embedding \<Rightarrow> Inr embedding
           | Inl KeyError \<Rightarrow> Inl TypeError
           | Inl IndexError \<Rightarrow> Inl TypeError
           | Inl e \<Rightarrow> Inl e)
      | _ \<Rightarrow> Inl TypeError)"

subsection \<open>Configuration, credentials and provider objects\<close>

text \<open>
  \<^verbatim>\<open>uuid.UUID\<close> is a 128-bit number. A UUID object is always truthy, so
  \<^verbatim>\<open>if user_id\<close> tests for \<^verbatim>\<open>None\<close> only.
\<close>

type_synonym uuid = "128 word"

text \<open>
  \<^verbatim>\<open>EmbeddingConfig\<close> (memgpt.data_types) and \<^verbatim>\<open>MemGPTCredentials\<close>
  (memgpt.credentials) are imported by the module; the records hold the attributes it reads.
  The attribute \<^verbatim>\<open>embedding_model\<close> of the configuration is the field
  \<open>embedding_model_cfg\<close>, since \<open>embedding_model\<close> names the factory function.
\<close>

record EmbeddingConfig =
  embedding_endpoint_type :: "string option"
  embedding_endpoint :: "string option"
  embedding_model_cfg :: string
  embedding_dim :: int

record MemGPTCredentials =
  openai_key :: "string option"
  azure_key :: "string option"
  azure_endpoint :: "string option"
  azure_version :: "string option"
  azure_embedding_deployment :: "string option"

text \<open>The private attributes of an \<^verbatim>\<open>EmbeddingEndpoint\<close> object.\<close>

record EmbeddingEndpoint =
  model_name :: string
  user :: "uuid option"
  base_url :: "string option"
  timeout :: real

text \<open>
  The objects the factory can return, one constructor per class, holding the constructor
  arguments the factory passes.
\<close>

datatype provider =
    OpenAIEmbedding "string option" "string option" "(string \<times> uuid) list"
  | AzureOpenAIEmbedding string string "string option" "string option" "string option"
  | EndpointObject EmbeddingEndpoint
  | HuggingFaceEmbedding string

datatype variant = HostedOpenAI | HostedAzure | SelfHostedEndpoint | LocalFallback

fun variant_of :: "provider \<Rightarrow> variant" where
  "variant_of (OpenAIEmbedding api_base api_key additional_kwargs) = HostedOpenAI"
| "variant_of (AzureOpenAIEmbedding model deployment api_key endpoint version) = HostedAzure"
| "variant_of (EndpointObject self) = SelfHostedEndpoint"
| "variant_of (HuggingFaceEmbedding model) = LocalFallback"

subsection \<open>EmbeddingEndpoint (lines 47 to 166)\<close>

text \<open>
  The methods keep their names without the leading underscores. First \<^verbatim>\<open>__init__\<close>, with
  \<^verbatim>\<open>is_valid_url\<close> (memgpt.utils) as a parameter. The constructor makes no request in
  either branch.
\<close>

definition EmbeddingEndpoint_init ::
  "(string option \<Rightarrow> bool) \<Rightarrow> string \<Rightarrow> string option \<Rightarrow> uuid option \<Rightarrow> real
     \<Rightarrow> py_error + EmbeddingEndpoint" where
  "EmbeddingEndpoint_init is_valid_url model url usr tmo =
     (if \<not> is_valid_url url then Inl ValueError
      else Inr \<lparr>model_name = model, user = usr, base_url = url, timeout = tmo\<rparr>)"

text \<open>The request that \<^verbatim>\<open>client.post\<close> receives.\<close>

record request =
  url :: string
  headers :: "(string \<times> string) list"
  json_input :: string
  json_model :: string
  json_user :: "uuid option"
  request_timeout :: real

text \<open>The f-string \<^verbatim>\<open>f"{self._base_url}/embeddings"\<close>; \<^verbatim>\<open>None\<close> formats as its name.\<close>

definition embeddings_url :: "string option \<Rightarrow> string" where
  "embeddings_url b = (case b of None \<Rightarrow> ''None'' | Some s \<Rightarrow> s) @ ''/embeddings''"

definition make_request :: "EmbeddingEndpoint \<Rightarrow> string \<Rightarrow> request" where
  "make_request self text =
     \<lparr>url = embeddings_url (base_url self),
      headers = [(''Content-Type'', ''application/json'')],
      json_input = text, json_model = model_name self, json_user = user self,
      request_timeout = timeout self\<rparr>"

text \<open>
  \<^verbatim>\<open>_call_api\<close>. The parameter \<open>post\<close> stands for \<^verbatim>\<open>client.post\<close> followed by
  \<^verbatim>\<open>response.json()\<close>: a function of the request giving the decoded body, or the
  exception of the transport or of the decoding, which propagates. The second component of
  the result lists the requests the call has issued.
\<close>

definition call_api ::
  "(string option \<Rightarrow> bool) \<Rightarrow> (request \<Rightarrow> py_error + json) \<Rightarrow> EmbeddingEndpoint \<Rightarrow> string
     \<Rightarrow> (py_error + json) \<times> request list" where
  "call_api is_valid_url post self text =
     (if \<not> is_valid_url (base_url self) then (Inl ValueError, [])
      else (case post (make_request self text) of
              Inl e \<Rightarrow> (Inl e, [make_request self text])
            | Inr response_json \<Rightarrow> (parse_response response_json, [make_request self text])))"

text \<open>\<^verbatim>\<open>_acall_api\<close>: the same statements on the asynchronous client.\<close>

definition acall_api ::
  "(string option \<Rightarrow> bool) \<Rightarrow> (request \<Rightarrow> py_error + json) \<Rightarrow> EmbeddingEndpoint \<Rightarrow> string
     \<Rightarrow> (py_error + json) \<times> request list" where
  "acall_api is_valid_url apost self text =
     (if \<not> is_valid_url (base_url self) then (Inl ValueError, [])
      else (case apost (make_request self text) of
              Inl e \<Rightarrow> (Inl e, [make_request self text])
            | Inr response_json \<Rightarrow> (parse_response response_json, [make_request self text])))"

definition get_query_embedding ::
  "(string option \<Rightarrow> bool) \<Rightarrow> (request \<Rightarrow> py_error + json) \<Rightarrow> EmbeddingEndpoint \<Rightarrow> string
     \<Rightarrow> (py_error + json) \<times> request list" where
  "get_query_embedding is_valid_url post self query = call_api is_valid_url post self query"

definition get_text_embedding ::
  "(string option \<Rightarrow> bool) \<Rightarrow> (request \<Rightarrow> py_error + json) \<Rightarrow> EmbeddingEndpoint \<Rightarrow> string
     \<Rightarrow> (py_error + json) \<times> request list" where
  "get_text_embedding is_valid_url post self text = call_api is_valid_url post self text"

text \<open>
  \<^verbatim>\<open>_get_text_embeddings\<close>: the list comprehension calls \<^verbatim>\<open>_get_text_embedding\<close> on
  each text in order and stops at the first exception.
\<close>

fun get_text_embeddings ::
  "(string option \<Rightarrow> bool) \<Rightarrow> (request \<Rightarrow> py_error + json) \<Rightarrow> EmbeddingEndpoint \<Rightarrow> string list
     \<Rightarrow> (py_error + json list) \<times> request list" where
  "get_text_embeddings is_valid_url post self [] = (Inr [], [])"
| "get_text_embeddings is_valid_url post self (text # texts) =
     (case get_text_embedding is_valid_url post self text of
        (Inl e, rs) \<Rightarrow> (Inl e, rs)
      | (Inr x, rs) \<Rightarrow>
          (case get_text_embeddings is_valid_url post self texts of
             (Inl e, rs') \<Rightarrow> (Inl e, rs @ rs')
           | (Inr xs, rs') \<Rightarrow> (Inr (x # xs), rs @ rs')))"

text \<open>The asynchronous methods call the synchronous ones.\<close>

definition aget_query_embedding ::
  "(string option \<Rightarrow> bool) \<Rightarrow> (request \<Rightarrow> py_error + json) \<Rightarrow> EmbeddingEndpoint \<Rightarrow> string
     \<Rightarrow> (py_error + json) \<times> request list" where
  "aget_query_embedding is_valid_url post self query =
     get_query_embedding is_valid_url post self query"

definition aget_text_embedding ::
  "(string option \<Rightarrow> bool) \<Rightarrow> (request \<Rightarrow> py_error + json) \<Rightarrow> EmbeddingEndpoint \<Rightarrow> string
     \<Rightarrow> (py_error + json) \<times> request list" where
  "aget_text_embedding is_valid_url post self text =
     get_text_embedding is_valid_url post self text"

subsection \<open>The factory (lines 169 to 213)\<close>

text \<open>\<^verbatim>\<open>os.environ\<close> is a map from names to values.\<close>

type_synonym environ = "string \<rightharpoonup> string"

definition default_embedding_model :: "environ \<Rightarrow> provider \<times> environ" where
  "default_embedding_model env =
     (HuggingFaceEmbedding ''BAAI/bge-small-en-v1.5'',
      env(''TOKENIZERS_PARALLELISM'' \<mapsto> ''False''))"

text \<open>
  \<^verbatim>\<open>embedding_model\<close>. The parameter \<open>credentials\<close> is what \<^verbatim>\<open>MemGPTCredentials.load()\<close>
  returned. The constructors of the library classes are data constructors.
\<close>

definition embedding_model ::
  "(string option \<Rightarrow> bool) \<Rightarrow> MemGPTCredentials \<Rightarrow> EmbeddingConfig \<Rightarrow> uuid option \<Rightarrow> environ
     \<Rightarrow> (py_error + provider) \<times> environ" where
  "embedding_model is_valid_url credentials config user_id env =
     (let endpoint_type = embedding_endpoint_type config in
      if endpoint_type = Some ''openai'' then
        (Inr (OpenAIEmbedding (embedding_endpoint config) (openai_key credentials)
                (case user_id of None \<Rightarrow> [] | Some u \<Rightarrow> [(''user_id'', u)])), env)
      else if endpoint_type = Some ''azure'' then
        (Inr (AzureOpenAIEmbedding ''text-embedding-ada-002''
                (case azure_embedding_deployment credentials of
                   Some d \<Rightarrow> d | None \<Rightarrow> ''text-embedding-ada-002'')
                (azure_key credentials) (azure_endpoint credentials)
                (azure_version credentials)), env)
      else if endpoint_type = Some ''hugging-face'' then
        (case EmbeddingEndpoint_init is_valid_url (embedding_model_cfg config)
                (embedding_endpoint config) user_id 60 of
           Inl e \<Rightarrow> (Inl e, env)
         | Inr self \<Rightarrow> (Inr (EndpointObject self), env))
      else
        (case default_embedding_model env of (m, env') \<Rightarrow> (Inr m, env')))"

subsection \<open>Padding a query vector (lines 179 to 184)\<close>

text \<open>
  \<^verbatim>\<open>np.pad(v, (0, after), mode="constant")\<close> on a one-dimensional array: \<open>after\<close> zeros
  are appended; numpy rejects a negative width with ValueError.
\<close>

definition np_pad :: "real list \<Rightarrow> int \<Rightarrow> py_error + real list" where
  "np_pad v after =
     (if after < 0 then Inl ValueError else Inr (v @ replicate (nat after) 0))"

text \<open>
  \<^verbatim>\<open>query_embedding\<close>. \<open>MAX_EMBEDDING_DIM\<close> (memgpt.constants) and the method
  \<^verbatim>\<open>get_text_embedding\<close> of the model passed in are parameters; an exception of the
  method propagates.
\<close>

definition query_embedding ::
  "int \<Rightarrow> (string \<Rightarrow> py_error + real list) \<Rightarrow> string \<Rightarrow> py_error + real list" where
  "query_embedding MAX_EMBEDDING_DIM model_get_text_embedding query_text =
     (case model_get_text_embedding query_text of
        Inl e \<Rightarrow> Inl e
      | Inr query_vec \<Rightarrow> np_pad query_vec (MAX_EMBEDDING_DIM - int (length query_vec)))"

subsection \<open>Fitting a text to the token budget (lines 19 to 44)\<close>

text \<open>
  A tiktoken encoding: its \<^verbatim>\<open>encode\<close> method, and the attribute \<^verbatim>\<open>max_length\<close> when
  \<^verbatim>\<open>hasattr\<close> finds one. \<^verbatim>\<open>encode\<close> receives the caller's text; it returns the tokens or
  raises.
\<close>

record encoding =
  encode :: "string \<Rightarrow> py_error + nat list"
  max_length :: "int option"

text \<open>
  What the function reads from its imports: the two constants of memgpt.constants,
  \<^verbatim>\<open>tiktoken.get_encoding\<close>, which is applied to those constants only, and \<^verbatim>\<open>format_text\<close>
  of llama_index, called with the caller's text, the model name and the keyword
  \<^verbatim>\<open>max_length\<close>; it returns a text or raises.
\<close>

record library =
  EMBEDDING_TO_TOKENIZER_MAP :: "string \<rightharpoonup> string"
  EMBEDDING_TO_TOKENIZER_DEFAULT :: string
  get_encoding :: "string \<Rightarrow> encoding"
  format_text :: "string \<Rightarrow> string \<Rightarrow> int \<Rightarrow> py_error + string"

text \<open>
  The three warnings, by their arguments; \<^verbatim>\<open>print\<close> writes to the standard output,
  \<^verbatim>\<open>printd\<close> (memgpt.utils) to the debug output.
\<close>

datatype message =
    NoTokenizer string string
  | NoMaxLength string
  | Truncating int int

datatype printed = Print message | Printd message

text \<open>Lines 22 to 26: the encoding for a model name.\<close>

definition resolve_encoding :: "library \<Rightarrow> string \<Rightarrow> encoding \<times> printed list" where
  "resolve_encoding lib model =
     (case EMBEDDING_TO_TOKENIZER_MAP lib model of
        Some name \<Rightarrow> (get_encoding lib name, [])
      | None \<Rightarrow>
          (get_encoding lib (EMBEDDING_TO_TOKENIZER_DEFAULT lib),
           [Print (NoTokenizer model (EMBEDDING_TO_TOKENIZER_DEFAULT lib))]))"

text \<open>Lines 30 to 36: the token limit.\<close>

definition determine_max_length :: "encoding \<Rightarrow> string \<Rightarrow> int \<times> printed list" where
  "determine_max_length enc model =
     (case max_length enc of
        Some m \<Rightarrow> (m, [])
      | None \<Rightarrow> (8191, [Printd (NoMaxLength model)]))"

text \<open>
  \<^verbatim>\<open>check_and_split_text\<close>. The function has no handler: an exception of \<^verbatim>\<open>encode\<close>
  (line 28) or of \<^verbatim>\<open>format_text\<close> (line 42) leaves it, after what was printed before.
\<close>

definition check_and_split_text ::
  "library \<Rightarrow> string \<Rightarrow> string \<Rightarrow> (py_error + string list) \<times> printed list" where
  "check_and_split_text lib text model =
     (case resolve_encoding lib model of
        (enc, out1) \<Rightarrow>
          (case encode enc text of
             Inl e \<Rightarrow> (Inl e, out1)
           | Inr tokens \<Rightarrow>
               (let num_tokens = int (length tokens) in
                case determine_max_length enc model of
                  (max_len, out2) \<Rightarrow>
                    if num_tokens > max_len then
                      (case format_text lib text model max_len of
                         Inl e \<Rightarrow>
                           (Inl e, out1 @ out2 @ [Print (Truncating num_tokens max_len)])
                       | Inr truncated \<Rightarrow>
                           (Inr [truncated],
                            out1 @ out2 @ [Print (Truncating num_tokens max_len)]))
                    else (Inr [text], out1 @ out2))))"

text \<open>Whether a decoded value is a number, for stating what the parser does not check.\<close>

fun is_number :: "json \<Rightarrow> bool" where
  "is_number (JNumber r) = True"
| "is_number other = False"

text \<open>
  An instance of the URL check for evaluating the functions at concrete inputs: it accepts
  the strings that start with \<^verbatim>\<open>http://\<close> or \<^verbatim>\<open>https://\<close>. The functions above take the
  check as a parameter and the general theorems hold for every check.
\<close>

definition sample_is_valid_url :: "string option \<Rightarrow> bool" where
  "sample_is_valid_url u =
     (case u of None \<Rightarrow> False
      | Some s \<Rightarrow> take 7 s = ''http://'' \<or> take 8 s = ''https://'')"

text \<open>
  An instance of the imports for evaluating \<open>check_and_split_text\<close> at concrete inputs: one
  model name is mapped; every encoding has one token per character, declares no
  \<^verbatim>\<open>max_length\<close> and, as tiktoken's \<^verbatim>\<open>encode\<close> does with its default arguments, raises
  ValueError on a text that contains the special token \<^verbatim>\<open><|endoftext|>\<close>; the formatter keeps
  the first characters up to the limit.
\<close>

fun contains_endoftext :: "string \<Rightarrow> bool" where
  "contains_endoftext [] = False"
| "contains_endoftext (c # cs) =
     (take 13 (c # cs) = ''<|endoftext|>'' \<or> contains_endoftext cs)"

definition sample_encode :: "string \<Rightarrow> py_error + nat list" where
  "sample_encode text =
     (if contains_endoftext text then Inl ValueError else Inr (map of_char text))"

definition sample_library :: library where
  "sample_library =
     \<lparr>EMBEDDING_TO_TOKENIZER_MAP = map_of [(''text-embedding-ada-002'', ''cl100k_base'')],
      EMBEDDING_TO_TOKENIZER_DEFAULT = ''cl100k_base'',
      get_encoding = (\<lambda>name. \<lparr>encode = sample_encode, max_length = None\<rparr>),
      format_text = (\<lambda>text model n. Inr (take (nat n) text))\<rparr>"

section \<open>Properties\<close>

subsection \<open>The response parser\<close>

lemma getitem_zero_errors:
  "getitem_zero d = Inl e \<Longrightarrow> e = IndexError \<or> e = KeyError \<or> e = TypeError"
  by (cases d rule: getitem_zero.cases) auto

lemma getitem_key_errors:
  "getitem_key x k = Inl e \<Longrightarrow> e = KeyError \<or> e = TypeError"
  by (cases x) (auto split: option.splits)

lemma data_0_embedding_errors:
  "data_0_embedding r = Inl e \<Longrightarrow> e = IndexError \<or> e = KeyError \<or> e = TypeError"
  unfolding data_0_embedding_def
  by (auto split: sum.splits dest: getitem_zero_errors getitem_key_errors)

lemma getitem_key_Inr:
  "getitem_key x k = Inr v \<Longrightarrow> \<exists>kvs. x = JObject kvs \<and> map_of kvs k = Some v"
  by (cases x) (auto split: option.splits)

lemma data_0_embedding_Inr:
  assumes "data_0_embedding (JObject kvs) = Inr v"
  shows "\<exists>kvs' rest. map_of kvs ''data'' = Some (JArray (JObject kvs' # rest))
           \<and> map_of kvs' ''embedding'' = Some v"
proof -
  from assms obtain d x where d: "map_of kvs ''data'' = Some d"
    and x: "getitem_zero d = Inr x" and v: "getitem_key x ''embedding'' = Inr v"
    unfolding data_0_embedding_def by (auto split: sum.splits option.splits)
  from v obtain kvs' where x': "x = JObject kvs'" and e: "map_of kvs' ''embedding'' = Some v"
    using getitem_key_Inr by blast
  from x x' obtain rest where "d = JArray (JObject kvs' # rest)"
    by (cases d rule: getitem_zero.cases) auto
  with d e show ?thesis by blast
qed

lemma parse_response_object_fails:
  assumes "\<forall>v. data_0_embedding (JObject kvs) \<noteq> Inr v"
  shows "parse_response (JObject kvs) = Inl TypeError"
proof -
  from assms obtain e where e: "data_0_embedding (JObject kvs) = Inl e"
    by (cases "data_0_embedding (JObject kvs)") auto
  then have "e = IndexError \<or> e = KeyError \<or> e = TypeError"
    by (rule data_0_embedding_errors)
  with e show ?thesis
    by (auto simp: parse_response_def)
qed

text \<open>
  Claim C4. For every decoded response body: a JSON array is returned as the embedding
  unchanged; a JSON object with a key "data" whose value is an array whose first element is
  an object with a key "embedding" gives that embedding; every other body makes the parser
  raise TypeError, the exception class of the module's malformed-response error, and no
  value is returned. This covers an object without "data", an empty "data" array, a first
  element without "embedding", and a "data" or a first element that is not subscriptable
  (there the TypeError is the interpreter's own, which the \<^verbatim>\<open>except\<close> clause lets through).
\<close>

theorem parse_response_shapes:
  "parse_response (JArray xs) = Inr (JArray xs)
   \<and> (map_of kvs ''data'' = Some (JArray (JObject kvs' # rest))
        \<and> map_of kvs' ''embedding'' = Some v
        \<longrightarrow> parse_response (JObject kvs) = Inr v)
   \<and> ((\<forall>ys. r \<noteq> JArray ys)
        \<and> (\<forall>ks ks' tl w. \<not> (r = JObject ks
               \<and> map_of ks ''data'' = Some (JArray (JObject ks' # tl))
               \<and> map_of ks' ''embedding'' = Some w))
        \<longrightarrow> parse_response r = Inl TypeError)"
proof (intro conjI impI)
  show "parse_response (JArray xs) = Inr (JArray xs)"
    by (simp add: parse_response_def)
next
  assume "map_of kvs ''data'' = Some (JArray (JObject kvs' # rest))
          \<and> map_of kvs' ''embedding'' = Some v"
  then show "parse_response (JObject kvs) = Inr v"
    by (simp add: parse_response_def data_0_embedding_def)
next
  assume other: "(\<forall>ys. r \<noteq> JArray ys)
        \<and> (\<forall>ks ks' tl w. \<not> (r = JObject ks
               \<and> map_of ks ''data'' = Some (JArray (JObject ks' # tl))
               \<and> map_of ks' ''embedding'' = Some w))"
  show "parse_response r = Inl TypeError"
  proof (cases r)
    case (JObject ks)
    have "\<forall>w. data_0_embedding (JObject ks) \<noteq> Inr w"
    proof (intro allI notI)
      fix w assume "data_0_embedding (JObject ks) = Inr w"
      from data_0_embedding_Inr [OF this] other JObject show False by blast
    qed
    then show ?thesis unfolding JObject by (rule parse_response_object_fails)
  next
    case (JArray ys)
    with other show ?thesis by blast
  qed (simp_all add: parse_response_def)
qed

text \<open>
  The three bodies of the specification's examples: a bare array, the packaged form, and an
  object with an unexpected key.
\<close>

theorem parse_response_shapes_witness:
  "(map_of [(''data'', JArray [JObject [(''embedding'', JArray [JNumber 0.4, JNumber 0.5])]])]
        ''data''
       = Some (JArray (JObject [(''embedding'', JArray [JNumber 0.4, JNumber 0.5])] # []))
     \<and> map_of [(''embedding'', JArray [JNumber 0.4, JNumber 0.5])] ''embedding''
       = Some (JArray [JNumber 0.4, JNumber 0.5]))
   \<and> ((\<forall>ys. JObject [(''unexpected'', JNumber 1)] \<noteq> JArray ys)
     \<and> (\<forall>ks ks' tl w. \<not> (JObject [(''unexpected'', JNumber 1)] = JObject ks
               \<and> map_of ks ''data'' = Some (JArray (JObject ks' # tl))
               \<and> map_of ks' ''embedding'' = Some w)))
   \<and> parse_response (JArray [JNumber 0.1, JNumber 0.2, JNumber 0.3])
       = Inr (JArray [JNumber 0.1, JNumber 0.2, JNumber 0.3])
   \<and> parse_response
        (JObject [(''data'', JArray [JObject [(''embedding'', JArray [JNumber 0.4, JNumber 0.5])]])])
       = Inr (JArray [JNumber 0.4, JNumber 0.5])
   \<and> parse_response (JObject [(''unexpected'', JNumber 1)]) = Inl TypeError"
  using parse_response_shapes [of "[JNumber 0.1, JNumber 0.2, JNumber 0.3]"
      "[(''data'', JArray [JObject [(''embedding'', JArray [JNumber 0.4, JNumber 0.5])]])]"
      "[(''embedding'', JArray [JNumber 0.4, JNumber 0.5])]" "[]"
      "JArray [JNumber 0.4, JNumber 0.5]" "JObject [(''unexpected'', JNumber 1)]"]
  by auto

text \<open>
  Claim C10. The array branch does not look at the elements: a response that is an array
  of values that are not numbers (here an object and a string) is returned unchanged as the
  embedding, and no exception is raised.
\<close>

theorem parse_response_unchecked_array:
  "\<not> list_all is_number [JObject [(''x'', JNumber 1)], JString ''a'']
   \<and> parse_response (JArray [JObject [(''x'', JNumber 1)], JString ''a''])
       = Inr (JArray [JObject [(''x'', JNumber 1)], JString ''a''])"
  by (simp add: parse_response_def)

subsection \<open>The self-hosted endpoint\<close>

lemma EmbeddingEndpoint_init_valid:
  "EmbeddingEndpoint_init is_valid_url model b usr tmo = Inr self \<Longrightarrow>
     is_valid_url (base_url self) \<and> base_url self = b \<and> model_name self = model
       \<and> user self = usr \<and> timeout self = tmo"
  by (auto simp: EmbeddingEndpoint_init_def split: if_splits)

lemma call_api_valid_requests:
  "is_valid_url (base_url self) \<Longrightarrow>
     snd (call_api is_valid_url post self text) = [make_request self text]"
  by (simp add: call_api_def split: sum.splits)

lemma call_api_valid_result:
  "is_valid_url (base_url self) \<Longrightarrow> post (make_request self text) = Inr body \<Longrightarrow>
     fst (call_api is_valid_url post self text) = parse_response body"
  by (simp add: call_api_def)

lemma acall_api_eq_call_api:
  "acall_api is_valid_url post self text = call_api is_valid_url post self text"
  by (simp add: acall_api_def call_api_def)

lemma get_text_embeddings_invalid:
  "\<not> is_valid_url (base_url self) \<Longrightarrow> texts \<noteq> [] \<Longrightarrow>
     get_text_embeddings is_valid_url post self texts = (Inl ValueError, [])"
  by (cases texts) (simp_all add: get_text_embedding_def call_api_def)

text \<open>
  Claim C5. Constructing the self-hosted endpoint with a base URL that fails
  \<^verbatim>\<open>is_valid_url\<close> raises ValueError (the constructor issues no request at all); and every
  embedding call on an object whose stored base URL fails the check (the synchronous and
  asynchronous API calls, the text and query methods and their asynchronous forms) raises
  ValueError with an empty list of issued requests.
\<close>

theorem invalid_url_rejected:
  "(\<not> is_valid_url b \<longrightarrow>
      EmbeddingEndpoint_init is_valid_url model b usr tmo = Inl ValueError)
   \<and> (\<not> is_valid_url (base_url self) \<longrightarrow>
        call_api is_valid_url post self text = (Inl ValueError, [])
      \<and> acall_api is_valid_url post self text = (Inl ValueError, [])
      \<and> get_text_embedding is_valid_url post self text = (Inl ValueError, [])
      \<and> get_query_embedding is_valid_url post self text = (Inl ValueError, [])
      \<and> aget_text_embedding is_valid_url post self text = (Inl ValueError, [])
      \<and> aget_query_embedding is_valid_url post self text = (Inl ValueError, []))"
  by (simp add: EmbeddingEndpoint_init_def call_api_def acall_api_def get_text_embedding_def
      get_query_embedding_def aget_text_embedding_def aget_query_embedding_def)

text \<open>
  With the sample check, the base URL \<^verbatim>\<open>not a url\<close> is refused at construction and at each
  call on an object that holds it.
\<close>

theorem invalid_url_rejected_witness:
  "\<not> sample_is_valid_url (Some ''not a url'')
   \<and> \<not> sample_is_valid_url
          (base_url \<lparr>model_name = ''m'', user = None, base_url = Some ''not a url'',
                     timeout = 60\<rparr>)
   \<and> EmbeddingEndpoint_init sample_is_valid_url ''m'' (Some ''not a url'') None 60
       = Inl ValueError
   \<and> call_api sample_is_valid_url (\<lambda>q. Inr (JArray [JNumber 1]))
        \<lparr>model_name = ''m'', user = None, base_url = Some ''not a url'', timeout = 60\<rparr>
        ''hello'' = (Inl ValueError, [])
   \<and> aget_text_embedding sample_is_valid_url (\<lambda>q. Inr (JArray [JNumber 1]))
        \<lparr>model_name = ''m'', user = None, base_url = Some ''not a url'', timeout = 60\<rparr>
        ''hello'' = (Inl ValueError, [])"
proof -
  have bad: "\<not> sample_is_valid_url (Some ''not a url'')"
    by (simp add: sample_is_valid_url_def)
  show ?thesis
    using bad invalid_url_rejected [of sample_is_valid_url "Some ''not a url''" "''m''" None 60
      "\<lparr>model_name = ''m'', user = None, base_url = Some ''not a url'', timeout = 60\<rparr>"
      "\<lambda>q. Inr (JArray [JNumber 1])" "''hello''"]
    by simp
qed

text \<open>
  Claim C9. On the self-hosted endpoint the query method and the asynchronous text method
  (and the asynchronous query method) give the same result as the synchronous text method
  for the same text, the backend being a function of the request: the same vector or the
  same exception, and the same requests issued.
\<close>

theorem query_and_async_equal_text:
  "get_query_embedding is_valid_url post self text
     = get_text_embedding is_valid_url post self text
   \<and> aget_text_embedding is_valid_url post self text
     = get_text_embedding is_valid_url post self text
   \<and> aget_query_embedding is_valid_url post self text
     = get_text_embedding is_valid_url post self text"
  by (simp add: get_query_embedding_def get_text_embedding_def aget_text_embedding_def
      aget_query_embedding_def)

subsection \<open>The factory\<close>

lemma embedding_model_env:
  "snd (embedding_model is_valid_url credentials config user_id env) =
     (if embedding_endpoint_type config \<in> {Some ''openai'', Some ''azure'', Some ''hugging-face''}
      then env else env(''TOKENIZERS_PARALLELISM'' \<mapsto> ''False''))"
  by (auto simp: embedding_model_def default_embedding_model_def Let_def split: sum.splits)

lemma embedding_model_variant:
  assumes "fst (embedding_model is_valid_url credentials config user_id env) = Inr p"
  shows "variant_of p =
     (if embedding_endpoint_type config = Some ''openai'' then HostedOpenAI
      else if embedding_endpoint_type config = Some ''azure'' then HostedAzure
      else if embedding_endpoint_type config = Some ''hugging-face'' then SelfHostedEndpoint
      else LocalFallback)"
  using assms
  by (auto simp: embedding_model_def default_embedding_model_def Let_def
      split: sum.splits if_splits)

text \<open>
  Claim C1, as amended. The tag the factory dispatches on for the self-hosted endpoint is
  \<^verbatim>\<open>hugging-face\<close>. When the configuration's endpoint type is \<^verbatim>\<open>hugging-face\<close> and its
  endpoint URL passes \<^verbatim>\<open>is_valid_url\<close>, the factory returns an EmbeddingEndpoint whose
  model and base URL are the configuration's, whose user is \<^verbatim>\<open>user_id\<close> and whose timeout
  is 60; when the URL fails the check, the constructor's ValueError propagates.
\<close>

theorem hugging_face_builds_endpoint:
  "embedding_endpoint_type config = Some ''hugging-face'' \<Longrightarrow>
     (is_valid_url (embedding_endpoint config) \<longrightarrow>
        embedding_model is_valid_url credentials config user_id env =
          (Inr (EndpointObject \<lparr>model_name = embedding_model_cfg config, user = user_id,
                  base_url = embedding_endpoint config, timeout = 60\<rparr>), env))
     \<and> (\<not> is_valid_url (embedding_endpoint config) \<longrightarrow>
        embedding_model is_valid_url credentials config user_id env = (Inl ValueError, env))"
  by (simp add: embedding_model_def EmbeddingEndpoint_init_def)

theorem hugging_face_builds_endpoint_witness:
  "embedding_endpoint_type
      \<lparr>embedding_endpoint_type = Some ''hugging-face'',
       embedding_endpoint = Some ''http://localhost:8080'',
       embedding_model_cfg = ''BAAI/bge-large-en-v1.5'', embedding_dim = 1024\<rparr>
     = Some ''hugging-face''
   \<and> sample_is_valid_url (embedding_endpoint
      \<lparr>embedding_endpoint_type = Some ''hugging-face'',
       embedding_endpoint = Some ''http://localhost:8080'',
       embedding_model_cfg = ''BAAI/bge-large-en-v1.5'', embedding_dim = 1024\<rparr>)
   \<and> embedding_model sample_is_valid_url
        \<lparr>openai_key = None, azure_key = None, azure_endpoint = None, azure_version = None,
         azure_embedding_deployment = None\<rparr>
        \<lparr>embedding_endpoint_type = Some ''hugging-face'',
         embedding_endpoint = Some ''http://localhost:8080'',
         embedding_model_cfg = ''BAAI/bge-large-en-v1.5'', embedding_dim = 1024\<rparr>
        (Some 7) (map_of [(''HOME'', ''/root'')])
     = (Inr (EndpointObject \<lparr>model_name = ''BAAI/bge-large-en-v1.5'', user = Some 7,
               base_url = Some ''http://localhost:8080'', timeout = 60\<rparr>),
        map_of [(''HOME'', ''/root'')])"
proof -
  have ok: "sample_is_valid_url (Some ''http://localhost:8080'')"
    by (simp add: sample_is_valid_url_def)
  show ?thesis
    using ok hugging_face_builds_endpoint [of
      "\<lparr>embedding_endpoint_type = Some ''hugging-face'',
        embedding_endpoint = Some ''http://localhost:8080'',
        embedding_model_cfg = ''BAAI/bge-large-en-v1.5'', embedding_dim = 1024\<rparr>"
      sample_is_valid_url
      "\<lparr>openai_key = None, azure_key = None, azure_endpoint = None, azure_version = None,
        azure_embedding_deployment = None\<rparr>"
      "Some 7" "map_of [(''HOME'', ''/root'')]"]
    by simp
qed

text \<open>
  The claim as written fails: with the endpoint type \<^verbatim>\<open>http-endpoint\<close> and a valid URL the
  factory falls through to the last branch and returns the local model, not an
  EmbeddingEndpoint; and with \<^verbatim>\<open>hugging-face\<close> and a URL that fails the check nothing is
  returned.
\<close>

theorem http_endpoint_tag_counterexample:
  "fst (embedding_model sample_is_valid_url
        \<lparr>openai_key = None, azure_key = None, azure_endpoint = None, azure_version = None,
         azure_embedding_deployment = None\<rparr>
        \<lparr>embedding_endpoint_type = Some ''http-endpoint'',
         embedding_endpoint = Some ''http://localhost:8080'',
         embedding_model_cfg = ''BAAI/bge-large-en-v1.5'', embedding_dim = 1024\<rparr>
        (Some 7) (map_of [(''HOME'', ''/root'')]))
     = Inr (HuggingFaceEmbedding ''BAAI/bge-small-en-v1.5'')
   \<and> fst (embedding_model sample_is_valid_url
        \<lparr>openai_key = None, azure_key = None, azure_endpoint = None, azure_version = None,
         azure_embedding_deployment = None\<rparr>
        \<lparr>embedding_endpoint_type = Some ''hugging-face'',
         embedding_endpoint = Some ''not a url'',
         embedding_model_cfg = ''BAAI/bge-large-en-v1.5'', embedding_dim = 1024\<rparr>
        (Some 7) (map_of [(''HOME'', ''/root'')]))
     = Inl ValueError"
  by (simp add: embedding_model_def default_embedding_model_def EmbeddingEndpoint_init_def
      sample_is_valid_url_def)

text \<open>
  Claim C2. For every configuration whose endpoint type is none of the tags the factory
  tests for (\<^verbatim>\<open>openai\<close>, \<^verbatim>\<open>azure\<close>, \<^verbatim>\<open>hugging-face\<close>), an absent type included, the
  factory returns the local model \<^verbatim>\<open>BAAI/bge-small-en-v1.5\<close> and raises nothing, whatever
  the URL check, the credentials and the user are. And the endpoint type determines the
  variant: two calls on configurations with the same endpoint type that both return a
  provider return the same variant.
\<close>

theorem unknown_type_gives_local_fallback:
  "(embedding_endpoint_type config \<noteq> Some ''openai''
      \<and> embedding_endpoint_type config \<noteq> Some ''azure''
      \<and> embedding_endpoint_type config \<noteq> Some ''hugging-face''
     \<longrightarrow> embedding_model is_valid_url credentials config user_id env
          = (Inr (HuggingFaceEmbedding ''BAAI/bge-small-en-v1.5''),
             env(''TOKENIZERS_PARALLELISM'' \<mapsto> ''False'')))
   \<and> (embedding_endpoint_type config1 = embedding_endpoint_type config2
      \<and> fst (embedding_model is_valid_url1 credentials1 config1 user_id1 env1) = Inr p1
      \<and> fst (embedding_model is_valid_url2 credentials2 config2 user_id2 env2) = Inr p2
     \<longrightarrow> variant_of p1 = variant_of p2)"
proof (intro conjI impI)
  assume "embedding_endpoint_type config \<noteq> Some ''openai''
      \<and> embedding_endpoint_type config \<noteq> Some ''azure''
      \<and> embedding_endpoint_type config \<noteq> Some ''hugging-face''"
  then show "embedding_model is_valid_url credentials config user_id env
          = (Inr (HuggingFaceEmbedding ''BAAI/bge-small-en-v1.5''),
             env(''TOKENIZERS_PARALLELISM'' \<mapsto> ''False''))"
    by (simp add: embedding_model_def default_embedding_model_def)
next
  assume same: "embedding_endpoint_type config1 = embedding_endpoint_type config2
      \<and> fst (embedding_model is_valid_url1 credentials1 config1 user_id1 env1) = Inr p1
      \<and> fst (embedding_model is_valid_url2 credentials2 config2 user_id2 env2) = Inr p2"
  then have "variant_of p1 =
     (if embedding_endpoint_type config1 = Some ''openai'' then HostedOpenAI
      else if embedding_endpoint_type config1 = Some ''azure'' then HostedAzure
      else if embedding_endpoint_type config1 = Some ''hugging-face'' then SelfHostedEndpoint
      else LocalFallback)"
    using embedding_model_variant by blast
  moreover from same have "variant_of p2 =
     (if embedding_endpoint_type config2 = Some ''openai'' then HostedOpenAI
      else if embedding_endpoint_type config2 = Some ''azure'' then HostedAzure
      else if embedding_endpoint_type config2 = Some ''hugging-face'' then SelfHostedEndpoint
      else LocalFallback)"
    using embedding_model_variant by blast
  ultimately show "variant_of p1 = variant_of p2"
    using same by simp
qed

text \<open>
  The endpoint type \<^verbatim>\<open>unknown-value\<close> of the specification's example, and an absent one;
  the second part at two \<^verbatim>\<open>openai\<close> configurations that differ in everything else.
\<close>

theorem unknown_type_gives_local_fallback_witness:
  "(embedding_endpoint_type
        \<lparr>embedding_endpoint_type = Some ''unknown-value'', embedding_endpoint = None,
         embedding_model_cfg = ''some-model'', embedding_dim = 384\<rparr> \<noteq> Some ''openai''
     \<and> embedding_endpoint_type
        \<lparr>embedding_endpoint_type = Some ''unknown-value'', embedding_endpoint = None,
         embedding_model_cfg = ''some-model'', embedding_dim = 384\<rparr> \<noteq> Some ''azure''
     \<and> embedding_endpoint_type
        \<lparr>embedding_endpoint_type = Some ''unknown-value'', embedding_endpoint = None,
         embedding_model_cfg = ''some-model'', embedding_dim = 384\<rparr> \<noteq> Some ''hugging-face'')
   \<and> embedding_model sample_is_valid_url
        \<lparr>openai_key = None, azure_key = None, azure_endpoint = None, azure_version = None,
         azure_embedding_deployment = None\<rparr>
        \<lparr>embedding_endpoint_type = Some ''unknown-value'', embedding_endpoint = None,
         embedding_model_cfg = ''some-model'', embedding_dim = 384\<rparr>
        None (map_of [(''HOME'', ''/root'')])
     = (Inr (HuggingFaceEmbedding ''BAAI/bge-small-en-v1.5''),
        (map_of [(''HOME'', ''/root'')])(''TOKENIZERS_PARALLELISM'' \<mapsto> ''False''))
   \<and> embedding_model sample_is_valid_url
        \<lparr>openai_key = None, azure_key = None, azure_endpoint = None, azure_version = None,
         azure_embedding_deployment = None\<rparr>
        \<lparr>embedding_endpoint_type = None, embedding_endpoint = None,
         embedding_model_cfg = ''some-model'', embedding_dim = 384\<rparr>
        None (map_of [(''HOME'', ''/root'')])
     = (Inr (HuggingFaceEmbedding ''BAAI/bge-small-en-v1.5''),
        (map_of [(''HOME'', ''/root'')])(''TOKENIZERS_PARALLELISM'' \<mapsto> ''False''))
   \<and> fst (embedding_model sample_is_valid_url
        \<lparr>openai_key = Some ''sk-a'', azure_key = None, azure_endpoint = None,
         azure_version = None, azure_embedding_deployment = None\<rparr>
        \<lparr>embedding_endpoint_type = Some ''openai'', embedding_endpoint = None,
         embedding_model_cfg = ''text-embedding-ada-002'', embedding_dim = 1536\<rparr>
        None (map_of [(''HOME'', ''/root'')]))
     = Inr (OpenAIEmbedding None (Some ''sk-a'') [])
   \<and> fst (embedding_model sample_is_valid_url
        \<lparr>openai_key = None, azure_key = None, azure_endpoint = None, azure_version = None,
         azure_embedding_deployment = None\<rparr>
        \<lparr>embedding_endpoint_type = Some ''openai'',
         embedding_endpoint = Some ''https://api.openai.com/v1'',
         embedding_model_cfg = ''other'', embedding_dim = 8\<rparr>
        (Some 7) (map_of []))
     = Inr (OpenAIEmbedding (Some ''https://api.openai.com/v1'') None [(''user_id'', 7)])
   \<and> variant_of (OpenAIEmbedding None (Some ''sk-a'') [])
     = variant_of (OpenAIEmbedding (Some ''https://api.openai.com/v1'') None [(''user_id'', 7)])"
proof -
  have a: "fst (embedding_model sample_is_valid_url
        \<lparr>openai_key = Some ''sk-a'', azure_key = None, azure_endpoint = None,
         azure_version = None, azure_embedding_deployment = None\<rparr>
        \<lparr>embedding_endpoint_type = Some ''openai'', embedding_endpoint = None,
         embedding_model_cfg = ''text-embedding-ada-002'', embedding_dim = 1536\<rparr>
        None (map_of [(''HOME'', ''/root'')]))
     = Inr (OpenAIEmbedding None (Some ''sk-a'') [])"
    by (simp add: embedding_model_def)
  have b: "fst (embedding_model sample_is_valid_url
        \<lparr>openai_key = None, azure_key = None, azure_endpoint = None, azure_version = None,
         azure_embedding_deployment = None\<rparr>
        \<lparr>embedding_endpoint_type = Some ''openai'',
         embedding_endpoint = Some ''https://api.openai.com/v1'',
         embedding_model_cfg = ''other'', embedding_dim = 8\<rparr>
        (Some 7) (map_of []))
     = Inr (OpenAIEmbedding (Some ''https://api.openai.com/v1'') None [(''user_id'', 7)])"
    by (simp add: embedding_model_def)
  have unknown: "embedding_model sample_is_valid_url
        \<lparr>openai_key = None, azure_key = None, azure_endpoint = None, azure_version = None,
         azure_embedding_deployment = None\<rparr>
        \<lparr>embedding_endpoint_type = Some ''unknown-value'', embedding_endpoint = None,
         embedding_model_cfg = ''some-model'', embedding_dim = 384\<rparr>
        None (map_of [(''HOME'', ''/root'')])
     = (Inr (HuggingFaceEmbedding ''BAAI/bge-small-en-v1.5''),
        (map_of [(''HOME'', ''/root'')])(''TOKENIZERS_PARALLELISM'' \<mapsto> ''False''))"
    using unknown_type_gives_local_fallback [THEN conjunct1, of
      "\<lparr>embedding_endpoint_type = Some ''unknown-value'', embedding_endpoint = None,
         embedding_model_cfg = ''some-model'', embedding_dim = 384\<rparr>"]
    by simp
  have absent: "embedding_model sample_is_valid_url
        \<lparr>openai_key = None, azure_key = None, azure_endpoint = None, azure_version = None,
         azure_embedding_deployment = None\<rparr>
        \<lparr>embedding_endpoint_type = None, embedding_endpoint = None,
         embedding_model_cfg = ''some-model'', embedding_dim = 384\<rparr>
        None (map_of [(''HOME'', ''/root'')])
     = (Inr (HuggingFaceEmbedding ''BAAI/bge-small-en-v1.5''),
        (map_of [(''HOME'', ''/root'')])(''TOKENIZERS_PARALLELISM'' \<mapsto> ''False''))"
    using unknown_type_gives_local_fallback [THEN conjunct1, of
      "\<lparr>embedding_endpoint_type = None, embedding_endpoint = None,
         embedding_model_cfg = ''some-model'', embedding_dim = 384\<rparr>"]
    by simp
  have same: "variant_of (OpenAIEmbedding None (Some ''sk-a'') [])
     = variant_of (OpenAIEmbedding (Some ''https://api.openai.com/v1'') None [(''user_id'', 7)])"
    using unknown_type_gives_local_fallback [THEN conjunct2, rule_format, OF conjI [OF _ conjI [OF a b]]]
    by simp
  show ?thesis
    using a b unknown absent same by simp
qed

subsection \<open>Padding\<close>

lemma np_pad_fits:
  "0 \<le> after \<Longrightarrow> np_pad v after = Inr (v @ replicate (nat after) 0)"
  by (simp add: np_pad_def)

lemma query_embedding_error_propagates:
  "model_get_text_embedding query_text = Inl e \<Longrightarrow>
     query_embedding MAX_EMBEDDING_DIM model_get_text_embedding query_text = Inl e"
  by (simp add: query_embedding_def)

text \<open>
  Claim C3. When the model returns a vector \<open>v\<close> of length N: if N is at most
  \<open>MAX_EMBEDDING_DIM\<close>, \<open>query_embedding\<close> returns a vector of length exactly
  \<open>MAX_EMBEDDING_DIM\<close> whose first N components are those of \<open>v\<close> in order and whose
  components from N on are zero; if N is larger, the call raises ValueError and returns
  no truncated vector.
\<close>

theorem query_embedding_pads:
  "model_get_text_embedding query_text = Inr v \<Longrightarrow>
     (int (length v) \<le> MAX_EMBEDDING_DIM \<longrightarrow>
        (\<exists>padded. query_embedding MAX_EMBEDDING_DIM model_get_text_embedding query_text
                     = Inr padded
           \<and> int (length padded) = MAX_EMBEDDING_DIM
           \<and> take (length v) padded = v
           \<and> (\<forall>i. length v \<le> i \<and> i < length padded \<longrightarrow> padded ! i = 0)))
     \<and> (MAX_EMBEDDING_DIM < int (length v) \<longrightarrow>
        query_embedding MAX_EMBEDDING_DIM model_get_text_embedding query_text
          = Inl ValueError)"
proof (intro conjI impI)
  assume v: "model_get_text_embedding query_text = Inr v"
    and fits: "int (length v) \<le> MAX_EMBEDDING_DIM"
  define padded where "padded = v @ replicate (nat (MAX_EMBEDDING_DIM - int (length v))) 0"
  have res: "query_embedding MAX_EMBEDDING_DIM model_get_text_embedding query_text = Inr padded"
    using v fits by (simp add: query_embedding_def np_pad_def padded_def)
  have len: "int (length padded) = MAX_EMBEDDING_DIM"
    using fits by (simp add: padded_def)
  have pre: "take (length v) padded = v"
    by (simp add: padded_def)
  have zero: "\<forall>i. length v \<le> i \<and> i < length padded \<longrightarrow> padded ! i = 0"
    by (auto simp: padded_def nth_append)
  from res len pre zero
  show "\<exists>padded. query_embedding MAX_EMBEDDING_DIM model_get_text_embedding query_text
                     = Inr padded
           \<and> int (length padded) = MAX_EMBEDDING_DIM
           \<and> take (length v) padded = v
           \<and> (\<forall>i. length v \<le> i \<and> i < length padded \<longrightarrow> padded ! i = 0)"
    by blast
next
  assume "model_get_text_embedding query_text = Inr v"
    and "MAX_EMBEDDING_DIM < int (length v)"
  then show "query_embedding MAX_EMBEDDING_DIM model_get_text_embedding query_text
          = Inl ValueError"
    by (simp add: query_embedding_def np_pad_def)
qed

text \<open>
  The specification's examples: a vector of two components padded to width 5, and a
  vector of six components refused at width 5.
\<close>

theorem query_embedding_pads_witness:
  "(\<lambda>q. Inr [1, 2]) ''query'' = (Inr [1, 2] :: py_error + real list)
   \<and> int (length [1, 2 :: real]) \<le> 5
   \<and> query_embedding 5 (\<lambda>q. Inr [1, 2]) ''query'' = Inr [1, 2, 0, 0, 0]
   \<and> (\<exists>padded. query_embedding 5 (\<lambda>q. Inr [1, 2]) ''query'' = Inr padded
         \<and> int (length padded) = 5 \<and> take (length [1, 2 :: real]) padded = [1, 2])
   \<and> (\<lambda>q. Inr [1, 1, 1, 1, 1, 1]) ''query'' = (Inr [1, 1, 1, 1, 1, 1] :: py_error + real list)
   \<and> 5 < int (length [1, 1, 1, 1, 1, 1 :: real])
   \<and> query_embedding 5 (\<lambda>q. Inr [1, 1, 1, 1, 1, 1]) ''query'' = Inl ValueError"
proof -
  have pad: "\<exists>padded. query_embedding 5 (\<lambda>q. Inr [1, 2]) ''query'' = Inr padded
         \<and> int (length padded) = 5 \<and> take (length [1, 2 :: real]) padded = [1, 2]"
    using query_embedding_pads [of "\<lambda>q. Inr [1, 2]" "''query''" "[1, 2]" 5] by auto
  have wide: "query_embedding 5 (\<lambda>q. Inr [1, 1, 1, 1, 1, 1]) ''query'' = Inl ValueError"
    using query_embedding_pads [of "\<lambda>q. Inr [1, 1, 1, 1, 1, 1]" "''query''"
        "[1, 1, 1, 1, 1, 1]" 5]
    by simp
  have val: "query_embedding 5 (\<lambda>q. Inr [1, 2]) ''query'' = Inr [1, 2, 0, 0, 0]"
    by (simp add: query_embedding_def np_pad_def numeral_eq_Suc)
  from pad wide val show ?thesis by simp
qed

subsection \<open>The token budget\<close>

lemma determine_max_length_value:
  "fst (determine_max_length enc model) = (case max_length enc of Some m \<Rightarrow> m | None \<Rightarrow> 8191)"
  by (simp add: determine_max_length_def split: option.splits)



lemma check_and_split_text_long:
  assumes "resolve_encoding lib model = (enc, out1)"
    and "encode enc text = Inr tokens"
    and "determine_max_length enc model = (max_len, out2)"
    and "max_len < int (length tokens)"
  shows "check_and_split_text lib text model =
           (map_sum id (\<lambda>truncated. [truncated]) (format_text lib text model max_len),
            out1 @ out2 @ [Print (Truncating (int (length tokens)) max_len)])"
  using assms by (simp add: check_and_split_text_def Let_def split: sum.splits)




text \<open>
  Claim C8. For every model name with no entry in the tokenizer mapping, the resolution
  prints the warning naming the model and the default tokenizer and returns the default
  tokenizer's encoding, and \<open>check_and_split_text\<close> shows that warning; for every model name
  the resolution returns an encoding, the mapped one or the default, and has no failing
  branch.
\<close>

theorem unmapped_model_uses_default_tokenizer:
  "(EMBEDDING_TO_TOKENIZER_MAP lib model = None \<longrightarrow>
      resolve_encoding lib model =
        (get_encoding lib (EMBEDDING_TO_TOKENIZER_DEFAULT lib),
         [Print (NoTokenizer model (EMBEDDING_TO_TOKENIZER_DEFAULT lib))])
      \<and> Print (NoTokenizer model (EMBEDDING_TO_TOKENIZER_DEFAULT lib))
          \<in> set (snd (check_and_split_text lib text model)))
   \<and> fst (resolve_encoding lib model) =
       get_encoding lib (case EMBEDDING_TO_TOKENIZER_MAP lib model of
                           None \<Rightarrow> EMBEDDING_TO_TOKENIZER_DEFAULT lib | Some name \<Rightarrow> name)"
  by (cases "determine_max_length (get_encoding lib (EMBEDDING_TO_TOKENIZER_DEFAULT lib)) model")
     (auto simp: resolve_encoding_def check_and_split_text_def Let_def
           split: option.splits sum.splits)

theorem unmapped_model_uses_default_tokenizer_witness:
  "EMBEDDING_TO_TOKENIZER_MAP sample_library ''some-model'' = None
   \<and> resolve_encoding sample_library ''some-model'' =
        (get_encoding sample_library ''cl100k_base'',
         [Print (NoTokenizer ''some-model'' ''cl100k_base'')])
   \<and> Print (NoTokenizer ''some-model'' ''cl100k_base'')
          \<in> set (snd (check_and_split_text sample_library ''hello'' ''some-model''))"
proof -
  have miss: "EMBEDDING_TO_TOKENIZER_MAP sample_library ''some-model'' = None"
    by (simp add: sample_library_def)
  have dflt: "EMBEDDING_TO_TOKENIZER_DEFAULT sample_library = ''cl100k_base''"
    by (simp add: sample_library_def)
  show ?thesis
    using miss unmapped_model_uses_default_tokenizer [of sample_library "''some-model''"
        "''hello''"]
    by (simp add: dflt)
qed

text \<open>
  Over the limit, when \<^verbatim>\<open>format_text\<close> returns, the only segment is what it returns for the
  text, the model name and the limit, and the truncation warning with the token count and
  the limit is printed last. How many tokens that segment has is decided by
  \<^verbatim>\<open>format_text\<close>, which the module imports from llama_index.
\<close>

lemma check_and_split_text_over_budget:
  assumes "enc = fst (resolve_encoding lib model)"
    and "max_len = fst (determine_max_length enc model)"
    and "encode enc text = Inr tokens"
    and "max_len < int (length tokens)"
  shows "fst (check_and_split_text lib text model)
           = map_sum id (\<lambda>truncated. [truncated]) (format_text lib text model max_len)"
    and "snd (check_and_split_text lib text model) \<noteq> []"
    and "last (snd (check_and_split_text lib text model))
           = Print (Truncating (int (length tokens)) max_len)"
proof -
  obtain out1 where r: "resolve_encoding lib model = (enc, out1)"
    using assms(1) by (cases "resolve_encoding lib model") simp
  obtain out2 where d: "determine_max_length enc model = (max_len, out2)"
    using assms(2) by (cases "determine_max_length enc model") simp
  note long = check_and_split_text_long [OF r assms(3) d assms(4)]
  show "fst (check_and_split_text lib text model)
           = map_sum id (\<lambda>truncated. [truncated]) (format_text lib text model max_len)"
    by (simp add: long)
  show "snd (check_and_split_text lib text model) \<noteq> []"
    by (simp add: long)
  show "last (snd (check_and_split_text lib text model))
           = Print (Truncating (int (length tokens)) max_len)"
    by (simp add: long)
qed

end
